theory Spec2Isabelle
  imports Main
begin

unbundle bit_operations_syntax

section \<open>Values, exceptions and the collaborating libraries\<close>

text \<open>
  The module \<^verbatim>\<open>scrapy/core/downloader/contextfactory.py\<close> configures a TLS library; it
  does not implement one. Python integers are unbounded (\<open>int\<close>), a byte string is a list
  of 8-bit characters, and a text string that came out of an ASCII decode is the same list.
  Every exception the module can raise or let through is a value of \<open>exn\<close>.
\<close>

type_synonym bytes = "char list"
type_synonym str = "char list"

datatype exn =
    AttributeError string
  | KeyError "string option"
  | TypeError string
  | UnicodeDecodeError nat
  | Invalid
  | OtherError string

text \<open>
  \<open>getattr(obj, name)\<close> raises AttributeError when the attribute is absent;
  \<open>getattr(obj, name, default)\<close> returns the default instead. A module's attributes are a
  map from names to values.
\<close>

definition getattr :: "(string \<rightharpoonup> 'a) \<Rightarrow> string \<Rightarrow> exn + 'a" where
  "getattr obj name = (case obj name of None \<Rightarrow> Inl (AttributeError name) | Some v \<Rightarrow> Inr v)"

definition getattr_default :: "(string \<rightharpoonup> 'a) \<Rightarrow> string \<Rightarrow> 'a \<Rightarrow> 'a" where
  "getattr_default obj name dflt = (case obj name of None \<Rightarrow> dflt | Some v \<Rightarrow> v)"

text \<open>
  \<open>d[key]\<close> on a dict raises KeyError for a missing key; the key may be \<open>None\<close>
  (what \<open>settings.get\<close> returns for an unset name), which no table of names holds.
\<close>

definition dict_getitem :: "(string \<rightharpoonup> 'a) \<Rightarrow> string option \<Rightarrow> exn + 'a" where
  "dict_getitem d key =
     (case key of
        None \<Rightarrow> Inl (KeyError None)
      | Some k \<Rightarrow> (case d k of None \<Rightarrow> Inl (KeyError (Some k)) | Some v \<Rightarrow> Inr v))"

text \<open>
  \<open>bytes.decode("ascii")\<close>: every byte below 128 is kept, the first other byte raises
  UnicodeDecodeError at its position.
\<close>

fun decode_ascii_from :: "nat \<Rightarrow> bytes \<Rightarrow> exn + str" where
  "decode_ascii_from i [] = Inr []"
| "decode_ascii_from i (b # bs) =
     (if (of_char b :: nat) < 128
      then (case decode_ascii_from (Suc i) bs of Inl e \<Rightarrow> Inl e | Inr s \<Rightarrow> Inr (b # s))
      else Inl (UnicodeDecodeError i))"

definition decode_ascii :: "bytes \<Rightarrow> exn + str" where
  "decode_ascii bs = decode_ascii_from 0 bs"

text \<open>
  What the module imports and does not define: the attributes of \<open>OpenSSL.SSL\<close>
  (which of them exist depends on the local build), Twisted's
  \<open>AcceptableCiphers.fromOpenSSLCipherString\<close>, and \<open>DEFAULT_CIPHERS\<close> of
  \<^verbatim>\<open>scrapy/core/downloader/tls.py\<close>. They are parameters of the model. A cipher policy
  is the ordered list of its cipher names.
\<close>

type_synonym acceptable_ciphers = "string list"

record tls_library =
  SSL :: "string \<rightharpoonup> int"
  fromOpenSSLCipherString :: "string \<Rightarrow> exn + acceptable_ciphers"
  DEFAULT_CIPHERS :: acceptable_ciphers

section \<open>ScrapyClientContextFactory\<close>

record factory =
  ssl_method :: int
  tls_verbose_logging :: bool
  tls_ciphers :: acceptable_ciphers

definition getContext_deprecation :: string where
  "getContext_deprecation =
     ''Overriding ScrapyClientContextFactory.getContext() is deprecated and that method'' @
     '' will be removed in a future Scrapy version. Override creatorForNetloc() instead.''"

text \<open>
  The constructor, without the extra positional and keyword arguments it passes on to
  Twisted's \<open>BrowserLikePolicyForHTTPS\<close>. \<open>method = None\<close> is the omitted argument. The inner \<open>getattr\<close> is an
  argument of the outer one, so Python evaluates it first. \<open>overridden\<close> is what
  \<open>method_is_overridden(type(self), ScrapyClientContextFactory, "getContext")\<close> returns
  for the class being instantiated. The result pairs the instance (or the exception) with
  the warnings emitted.
\<close>

definition ScrapyClientContextFactory_init ::
    "tls_library \<Rightarrow> bool \<Rightarrow> int option \<Rightarrow> bool \<Rightarrow> string option \<Rightarrow> (exn + factory) \<times> string list" where
  "ScrapyClientContextFactory_init lib overridden method verbose ciphers =
     (case (case method of
              None \<Rightarrow>
                (case getattr (SSL lib) ''SSLv23_METHOD'' of
                   Inl e \<Rightarrow> Inl e
                 | Inr fallback \<Rightarrow> Inr (getattr_default (SSL lib) ''TLS_METHOD'' fallback))
            | Some m \<Rightarrow> Inr m) of
        Inl e \<Rightarrow> (Inl e, [])
      | Inr m \<Rightarrow>
          (case (case ciphers of
                   None \<Rightarrow> Inr (DEFAULT_CIPHERS lib)
                 | Some c \<Rightarrow>
                     if c \<noteq> [] then fromOpenSSLCipherString lib c
                     else Inr (DEFAULT_CIPHERS lib)) of
             Inl e \<Rightarrow> (Inl e, [])
           | Inr cs \<Rightarrow>
               (Inr \<lparr>ssl_method = m, tls_verbose_logging = verbose, tls_ciphers = cs\<rparr>,
                if overridden then [getContext_deprecation] else [])))"

text \<open>
  Modelled from the spec: the settings class of \<^verbatim>\<open>scrapy/settings\<close> is not among the
  sources. The settings are what the loader hands over under the four keys the module
  reads: the TLS method name, the verbose-logging boolean (\<open>getbool\<close>), the cipher string
  and the dotted path of the factory class; an unset name reads as \<open>None\<close>. A crawler is
  used for its settings only.
\<close>

record settings =
  DOWNLOADER_CLIENT_TLS_METHOD :: "string option"
  DOWNLOADER_CLIENT_TLS_VERBOSE_LOGGING :: bool
  DOWNLOADER_CLIENT_TLS_CIPHERS :: "string option"
  DOWNLOADER_CLIENTCONTEXTFACTORY :: "string option"

type_synonym crawler = settings

text \<open>
  \<open>from_crawler\<close>: the parameter \<open>method\<close> has the default \<open>SSL.SSLv23_METHOD\<close>
  (an attribute access, which raises when the attribute is missing) and is always handed
  on to the constructor by keyword.
\<close>

definition from_crawler ::
    "tls_library \<Rightarrow> bool \<Rightarrow> crawler \<Rightarrow> int option \<Rightarrow> (exn + factory) \<times> string list" where
  "from_crawler lib overridden crawler method =
     (case (case method of
              None \<Rightarrow> getattr (SSL lib) ''SSLv23_METHOD''
            | Some m \<Rightarrow> Inr m) of
        Inl e \<Rightarrow> (Inl e, [])
      | Inr m \<Rightarrow>
          (let verbose = DOWNLOADER_CLIENT_TLS_VERBOSE_LOGGING crawler;
               ciphers = DOWNLOADER_CLIENT_TLS_CIPHERS crawler
           in ScrapyClientContextFactory_init lib overridden (Some m) verbose ciphers))"

record certificate_options =
  verify :: bool
  cmethod :: int
  fixBrokenPeers :: bool
  acceptableCiphers :: acceptable_ciphers

definition getCertificateOptions :: "factory \<Rightarrow> certificate_options" where
  "getCertificateOptions f =
     \<lparr>verify = False, cmethod = ssl_method f, fixBrokenPeers = True,
      acceptableCiphers = tls_ciphers f\<rparr>"

section \<open>Objects the methods allocate\<close>

text \<open>
  \<open>getContext\<close> and \<open>creatorForNetloc\<close> create objects and hand out references to them,
  and the protocol-negotiation wrapper mutates one through a reference. The state is
  therefore explicit: the instance the method runs on, the \<open>SSL.Context\<close> objects and the
  per-connection option objects created so far. An address is an index into these lists, a
  new object is appended, so its address is the length before; an address past the end
  names no object (the constructors never produce one), and an update there changes
  nothing.
\<close>

type_synonym addr = nat

text \<open>
  An \<open>OpenSSL.SSL.Context\<close>, as far as this module can tell contexts apart: the
  certificate options \<open>CertificateOptions.getContext\<close> built it from, the arguments of
  the \<open>set_options\<close> calls made on it (oldest first), and the protocol list
  \<open>_setAcceptableProtocols\<close> installed, if any.
\<close>

record ssl_context =
  ctx_certopts :: certificate_options
  ctx_set_options :: "int list"
  ctx_protocols :: "bytes list option"

text \<open>
  Modelled from the spec: \<open>ScrapyClientTLSOptions\<close> of \<^verbatim>\<open>scrapy/core/downloader/tls.py\<close>
  is not among the sources. The per-connection config carries the hostname, the handshake
  context (the \<open>_ctx\<close> reference the wrapper reads) and the verbose-logging flag.
\<close>

record client_tls_options =
  opt_hostname :: str
  opt_ctx :: addr
  opt_verbose_logging :: bool

record state =
  self :: factory
  contexts :: "ssl_context list"
  options :: "client_tls_options list"

text \<open>
  The library operations on these objects: \<open>CertificateOptions(...).getContext()\<close> of
  Twisted creates a context from fresh options, \<open>Context.set_options\<close> of pyOpenSSL adds
  option bits to a context, and constructing \<open>ScrapyClientTLSOptions\<close> creates a config.
\<close>

definition heap_get :: "'a list \<Rightarrow> addr \<Rightarrow> 'a option" where
  "heap_get h a = (if a < length h then Some (h ! a) else None)"

definition CertificateOptions_getContext :: "certificate_options \<Rightarrow> state \<Rightarrow> addr \<times> state" where
  "CertificateOptions_getContext co s =
     (length (contexts s),
      s\<lparr>contexts := contexts s @
           [\<lparr>ctx_certopts = co, ctx_set_options = [], ctx_protocols = None\<rparr>]\<rparr>)"

definition Context_set_options :: "addr \<Rightarrow> int \<Rightarrow> state \<Rightarrow> state" where
  "Context_set_options a v s =
     s\<lparr>contexts := (contexts s)
         [a := (contexts s ! a)\<lparr>ctx_set_options := ctx_set_options (contexts s ! a) @ [v]\<rparr>]\<rparr>"

definition ScrapyClientTLSOptions_new :: "str \<Rightarrow> addr \<Rightarrow> bool \<Rightarrow> state \<Rightarrow> addr \<times> state" where
  "ScrapyClientTLSOptions_new hostname ctx verbose s =
     (length (options s),
      s\<lparr>options := options s @
           [\<lparr>opt_hostname = hostname, opt_ctx = ctx, opt_verbose_logging = verbose\<rparr>]\<rparr>)"

text \<open>
  \<open>getContext(self, hostname=None, port=None)\<close>: both arguments are accepted and ignored.
\<close>

definition getContext :: "tls_library \<Rightarrow> bytes option \<Rightarrow> int option \<Rightarrow> state \<Rightarrow> addr \<times> state" where
  "getContext lib hostname port s =
     (let (ctx, s1) = CertificateOptions_getContext (getCertificateOptions (self s)) s;
          op_no_tlsv1 = getattr_default (SSL lib) ''OP_NO_TLSv1'' 0;
          op_no_tlsv1_1 = getattr_default (SSL lib) ''OP_NO_TLSv1_1'' 0;
          op_no_sslv2 = getattr_default (SSL lib) ''OP_NO_SSLv2'' 0;
          op_no_sslv3 = getattr_default (SSL lib) ''OP_NO_SSLv3'' 0;
          op_legacy = getattr_default (SSL lib) ''OP_LEGACY_SERVER_CONNECT'' 4;
          disable_flags = ((op_no_tlsv1 OR op_no_tlsv1_1) OR op_no_sslv2) OR op_no_sslv3
      in (ctx, Context_set_options ctx (op_legacy OR disable_flags) s1))"

text \<open>
  \<open>creatorForNetloc\<close>: the arguments of the constructor call are evaluated left to right,
  so the hostname is decoded before any context is built.
\<close>

definition creatorForNetloc :: "tls_library \<Rightarrow> bytes \<Rightarrow> int \<Rightarrow> state \<Rightarrow> (exn + addr) \<times> state" where
  "creatorForNetloc lib hostname port s =
     (case decode_ascii hostname of
        Inl e \<Rightarrow> (Inl e, s)
      | Inr name \<Rightarrow>
          (let (ctx, s1) = getContext lib None None s;
               (r, s2) = ScrapyClientTLSOptions_new name ctx (tls_verbose_logging (self s1)) s1
           in (Inr r, s2)))"

section \<open>AcceptableProtocolsContextFactory\<close>





text \<open>
  Twisted's \<open>_setAcceptableProtocols(context, protocols)\<close> is a library function outside
  the sources. It is modelled by the effect the specification gives it: the context's
  protocol list becomes the given list, whatever it was.
\<close>

definition setAcceptableProtocols :: "addr \<Rightarrow> bytes list \<Rightarrow> state \<Rightarrow> state" where
  "setAcceptableProtocols a protocols s =
     s\<lparr>contexts := (contexts s)[a := (contexts s ! a)\<lparr>ctx_protocols := Some protocols\<rparr>]\<rparr>"




section \<open>load_context_factory_from_settings\<close>

text \<open>
  A context-factory class, as the resolver meets it: whether its construction path takes
  a \<open>method\<close> keyword, and what construction does with the crawler and the method
  (\<open>None\<close> when none is passed): the instance or the exception raised, and the warnings
  emitted on the way.
\<close>

record 'f factory_class =
  accepts_method :: bool
  construct :: "crawler \<Rightarrow> int option \<Rightarrow> (exn + 'f) \<times> string list"

text \<open>
  Modelled from the spec: \<open>build_from_crawler\<close> of \<^verbatim>\<open>scrapy/utils/misc.py\<close> is not
  among the sources. It constructs the class with the crawler and the keyword arguments
  given; a keyword the construction path does not take is Python's TypeError, raised
  before any of the constructor runs.
\<close>

definition build_from_crawler ::
    "'f factory_class \<Rightarrow> crawler \<Rightarrow> int option \<Rightarrow> (exn + 'f) \<times> string list" where
  "build_from_crawler cls crawler method =
     (if method \<noteq> None \<and> \<not> accepts_method cls
      then (Inl (TypeError ''got an unexpected keyword argument method''), [])
      else construct cls crawler method)"

text \<open>
  The table \<open>openssl_methods\<close> of \<^verbatim>\<open>scrapy/core/downloader/tls.py\<close> and \<open>load_object\<close>
  of \<^verbatim>\<open>scrapy/utils/misc.py\<close> are parameters.
\<close>

record 'f resolver_env =
  openssl_methods :: "string \<rightharpoonup> int"
  load_object :: "string option \<Rightarrow> exn + 'f factory_class"

text \<open>What the resolver does that a caller can observe besides its result: each
  construction attempt, and each warning.\<close>

datatype event = Build "int option" | Warn string

definition py_str :: "string option \<Rightarrow> string" where
  "py_str v = (case v of None \<Rightarrow> ''None'' | Some x \<Rightarrow> x)"

definition fallback_msg :: "settings \<Rightarrow> string" where
  "fallback_msg settings =
     py_str (DOWNLOADER_CLIENTCONTEXTFACTORY settings) @ '' does not accept '' @
     ''a `method` argument (type OpenSSL.SSL method, e.g. '' @
     ''OpenSSL.SSL.SSLv23_METHOD) and/or a `tls_verbose_logging` '' @
     ''argument and/or a `tls_ciphers` argument. Please, upgrade your '' @
     ''context factory class to handle them or ignore them.''"

text \<open>
  The resolver, in two parts: the body from \<open>load_object\<close> on (the class is loaded,
  construction is tried with \<open>method\<close>, and on TypeError without), and the whole
  function, which first looks the configured method name up.
\<close>

definition load_and_build ::
    "'f resolver_env \<Rightarrow> settings \<Rightarrow> crawler \<Rightarrow> int \<Rightarrow> (exn + 'f) \<times> event list" where
  "load_and_build env settings crawler method =
     (case load_object env (DOWNLOADER_CLIENTCONTEXTFACTORY settings) of
        Inl e \<Rightarrow> (Inl e, [])
      | Inr context_factory_cls \<Rightarrow>
          (case build_from_crawler context_factory_cls crawler (Some method) of
             (Inr context_factory, ws) \<Rightarrow>
               (Inr context_factory, Build (Some method) # map Warn ws)
           | (Inl (TypeError msg), ws) \<Rightarrow>
               (case build_from_crawler context_factory_cls crawler None of
                  (Inl e, ws') \<Rightarrow>
                    (Inl e, Build (Some method) # map Warn ws @ Build None # map Warn ws')
                | (Inr context_factory, ws') \<Rightarrow>
                    (Inr context_factory,
                     Build (Some method) # map Warn ws @ Build None # map Warn ws' @
                     [Warn (fallback_msg settings)]))
           | (Inl e, ws) \<Rightarrow> (Inl e, Build (Some method) # map Warn ws)))"

definition load_context_factory_from_settings ::
    "'f resolver_env \<Rightarrow> settings \<Rightarrow> crawler \<Rightarrow> (exn + 'f) \<times> event list" where
  "load_context_factory_from_settings env settings crawler =
     (case dict_getitem (openssl_methods env) (DOWNLOADER_CLIENT_TLS_METHOD settings) of
        Inl e \<Rightarrow> (Inl e, [])
      | Inr method \<Rightarrow> load_and_build env settings crawler method)"

text \<open>The class \<open>ScrapyClientContextFactory\<close> itself: it has \<open>from_crawler\<close>, which
  takes \<open>method\<close>, and it does not override \<open>getContext\<close>.\<close>

definition ScrapyClientContextFactory_class :: "tls_library \<Rightarrow> factory factory_class" where
  "ScrapyClientContextFactory_class lib =
     \<lparr>accepts_method = True, construct = from_crawler lib False\<rparr>"

section \<open>The flags as the specification words them\<close>

text \<open>
  The specification describes the value handed to \<open>set_options\<close> as the
  legacy-server-connect bit OR-ed with all available disable-legacy-protocol bits. The
  available bits are the values of those of the four symbols the library has.
\<close>

definition available_disable_bits :: "tls_library \<Rightarrow> int list" where
  "available_disable_bits lib =
     List.map_filter (SSL lib)
       [''OP_NO_SSLv2'', ''OP_NO_SSLv3'', ''OP_NO_TLSv1'', ''OP_NO_TLSv1_1'']"

definition or_all :: "int list \<Rightarrow> int" where
  "or_all bits = fold (OR) bits 0"

section \<open>Concrete libraries, settings and classes\<close>

text \<open>
  A library with the modern method and all four protocol-disable flags, but no
  \<open>OP_LEGACY_SERVER_CONNECT\<close>; and a bare one that has the SSLv23 method only. The cipher
  parser of both takes the whole string as one cipher name.
\<close>

definition stub_library :: tls_library where
  "stub_library =
     \<lparr>SSL = [''SSLv23_METHOD'' \<mapsto> 3, ''TLS_METHOD'' \<mapsto> 7,
             ''OP_NO_SSLv2'' \<mapsto> 0x01000000, ''OP_NO_SSLv3'' \<mapsto> 0x02000000,
             ''OP_NO_TLSv1'' \<mapsto> 0x04000000, ''OP_NO_TLSv1_1'' \<mapsto> 0x10000000],
      fromOpenSSLCipherString = (\<lambda>c. Inr [c]),
      DEFAULT_CIPHERS = [''DEFAULT'']\<rparr>"

definition bare_library :: tls_library where
  "bare_library =
     \<lparr>SSL = [''SSLv23_METHOD'' \<mapsto> 3],
      fromOpenSSLCipherString = (\<lambda>c. Inr [c]),
      DEFAULT_CIPHERS = [''DEFAULT'']\<rparr>"

definition stub_settings :: settings where
  "stub_settings =
     \<lparr>DOWNLOADER_CLIENT_TLS_METHOD = Some ''TLS'',
      DOWNLOADER_CLIENT_TLS_VERBOSE_LOGGING = True,
      DOWNLOADER_CLIENT_TLS_CIPHERS = Some [],
      DOWNLOADER_CLIENTCONTEXTFACTORY =
        Some ''scrapy.core.downloader.contextfactory.ScrapyClientContextFactory''\<rparr>"

definition stub_factory :: factory where
  "stub_factory = \<lparr>ssl_method = 7, tls_verbose_logging = True, tls_ciphers = [''DEFAULT'']\<rparr>"

definition stub_state :: state where
  "stub_state = \<lparr>self = stub_factory, contexts = [], options = []\<rparr>"

text \<open>
  Two classes whose instances carry no data: one whose constructor takes no \<open>method\<close>,
  and one that takes it but raises a TypeError of its own when it is given.
\<close>

definition legacy_class :: "unit factory_class" where
  "legacy_class = \<lparr>accepts_method = False, construct = (\<lambda>crawler method. (Inr (), []))\<rparr>"

definition faulty_class :: "unit factory_class" where
  "faulty_class =
     \<lparr>accepts_method = True,
      construct = (\<lambda>crawler method.
        case method of
          None \<Rightarrow> (Inr (), [])
        | Some m \<Rightarrow> (Inl (TypeError ''unsupported operand type(s)''), []))\<rparr>"

definition stub_env :: "'f factory_class \<Rightarrow> 'f resolver_env" where
  "stub_env cls =
     \<lparr>openssl_methods = [''TLS'' \<mapsto> 7, ''TLSv1.2'' \<mapsto> 6],
      load_object = (\<lambda>path. Inr cls)\<rparr>"




section \<open>Basic facts\<close>

lemma getContext_eq:
  "getContext lib hostname port s =
     (length (contexts s),
      s\<lparr>contexts := contexts s @
         [\<lparr>ctx_certopts = getCertificateOptions (self s),
           ctx_set_options =
             [getattr_default (SSL lib) ''OP_LEGACY_SERVER_CONNECT'' 4 OR
              (((getattr_default (SSL lib) ''OP_NO_TLSv1'' 0 OR
                 getattr_default (SSL lib) ''OP_NO_TLSv1_1'' 0) OR
                getattr_default (SSL lib) ''OP_NO_SSLv2'' 0) OR
               getattr_default (SSL lib) ''OP_NO_SSLv3'' 0)],
           ctx_protocols = None\<rparr>]\<rparr>)"
  by (simp add: getContext_def CertificateOptions_getContext_def Context_set_options_def Let_def)

lemma init_probe:
  assumes "SSL lib ''SSLv23_METHOD'' = Some v"
  shows "ScrapyClientContextFactory_init lib overridden None verbose ciphers =
         ScrapyClientContextFactory_init lib overridden
           (Some (case SSL lib ''TLS_METHOD'' of None \<Rightarrow> v | Some t \<Rightarrow> t)) verbose ciphers"
  using assms
  by (simp add: ScrapyClientContextFactory_init_def getattr_def getattr_default_def)

lemma init_method:
  assumes "fst (ScrapyClientContextFactory_init lib overridden (Some m) verbose ciphers) = Inr f"
  shows "ssl_method f = m"
  using assms
  by (auto simp: ScrapyClientContextFactory_init_def split: option.splits sum.splits if_splits)

lemma or_all_available:
  "or_all (available_disable_bits lib) =
     ((getattr_default (SSL lib) ''OP_NO_TLSv1'' 0 OR
       getattr_default (SSL lib) ''OP_NO_TLSv1_1'' 0) OR
      getattr_default (SSL lib) ''OP_NO_SSLv2'' 0) OR
     getattr_default (SSL lib) ''OP_NO_SSLv3'' 0"
  by (simp add: available_disable_bits_def or_all_def getattr_default_def List.map_filter_simps
        or.assoc or.commute or.left_commute split: option.splits)

section \<open>The capability probe\<close>

text \<open>
  C1, as the code has it. With \<open>method\<close> omitted and the SSLv23 constant present in the
  library, the constructor selects \<open>TLS_METHOD\<close> when the library has it and the SSLv23
  constant otherwise, and without a cipher string it returns an instance. In
  \<open>getContext\<close>, each of the four protocol-disable flags that the library lacks counts as
  0, and a missing \<open>OP_LEGACY_SERVER_CONNECT\<close> counts as 4 (the flag's literal value,
  not 0): the call gives the same result as with a library that defines the symbol with
  that value. \<open>getContext\<close> returns a context and a state for every library, so a missing
  flag raises nothing.
\<close>

theorem capability_probe_fallbacks:
  "(SSL lib ''SSLv23_METHOD'' = Some v \<longrightarrow>
      (\<forall>f. fst (ScrapyClientContextFactory_init lib overridden None verbose ciphers) = Inr f \<longrightarrow>
           ssl_method f = (case SSL lib ''TLS_METHOD'' of None \<Rightarrow> v | Some t \<Rightarrow> t)) \<and>
      fst (ScrapyClientContextFactory_init lib overridden None verbose None) =
        Inr \<lparr>ssl_method = (case SSL lib ''TLS_METHOD'' of None \<Rightarrow> v | Some t \<Rightarrow> t),
             tls_verbose_logging = verbose, tls_ciphers = DEFAULT_CIPHERS lib\<rparr>)
   \<and> (\<forall>name \<in> {''OP_NO_TLSv1'', ''OP_NO_TLSv1_1'', ''OP_NO_SSLv2'', ''OP_NO_SSLv3''}.
        SSL lib name = None \<longrightarrow>
        getContext lib hostname port s =
        getContext (lib\<lparr>SSL := (SSL lib)(name \<mapsto> 0)\<rparr>) hostname port s)
   \<and> (SSL lib ''OP_LEGACY_SERVER_CONNECT'' = None \<longrightarrow>
        getContext lib hostname port s =
        getContext (lib\<lparr>SSL := (SSL lib)(''OP_LEGACY_SERVER_CONNECT'' \<mapsto> 4)\<rparr>) hostname port s)
   \<and> heap_get (contexts (snd (getContext lib hostname port s)))
        (fst (getContext lib hostname port s)) \<noteq> None"
proof (intro conjI impI allI ballI)
  fix f
  assume "SSL lib ''SSLv23_METHOD'' = Some v"
    and "fst (ScrapyClientContextFactory_init lib overridden None verbose ciphers) = Inr f"
  then show "ssl_method f = (case SSL lib ''TLS_METHOD'' of None \<Rightarrow> v | Some t \<Rightarrow> t)"
    by (simp add: init_probe init_method)
next
  assume "SSL lib ''SSLv23_METHOD'' = Some v"
  then show "fst (ScrapyClientContextFactory_init lib overridden None verbose None) =
        Inr \<lparr>ssl_method = (case SSL lib ''TLS_METHOD'' of None \<Rightarrow> v | Some t \<Rightarrow> t),
             tls_verbose_logging = verbose, tls_ciphers = DEFAULT_CIPHERS lib\<rparr>"
    by (simp add: ScrapyClientContextFactory_init_def getattr_def getattr_default_def)
next
  fix name
  assume "name \<in> {''OP_NO_TLSv1'', ''OP_NO_TLSv1_1'', ''OP_NO_SSLv2'', ''OP_NO_SSLv3''}"
    and "SSL lib name = None"
  then show "getContext lib hostname port s =
        getContext (lib\<lparr>SSL := (SSL lib)(name \<mapsto> 0)\<rparr>) hostname port s"
    by (auto simp: getContext_eq getattr_default_def)
next
  assume "SSL lib ''OP_LEGACY_SERVER_CONNECT'' = None"
  then show "getContext lib hostname port s =
        getContext (lib\<lparr>SSL := (SSL lib)(''OP_LEGACY_SERVER_CONNECT'' \<mapsto> 4)\<rparr>) hostname port s"
    by (simp add: getContext_eq getattr_default_def)
next
  show "heap_get (contexts (snd (getContext lib hostname port s)))
          (fst (getContext lib hostname port s)) \<noteq> None"
    by (simp add: getContext_eq heap_get_def)
qed

text \<open>The bare library has neither \<open>TLS_METHOD\<close> nor any flag: the SSLv23 method is
  selected, a missing \<open>OP_NO_SSLv3\<close> acts as 0 and the missing legacy bit as 4.\<close>

theorem capability_probe_fallbacks_witness:
  "fst (ScrapyClientContextFactory_init bare_library False None True None) =
     Inr \<lparr>ssl_method = 3, tls_verbose_logging = True, tls_ciphers = [''DEFAULT'']\<rparr>
   \<and> getContext bare_library None None stub_state =
     getContext (bare_library\<lparr>SSL := (SSL bare_library)(''OP_NO_SSLv3'' \<mapsto> 0)\<rparr>) None None stub_state
   \<and> getContext bare_library None None stub_state =
     getContext (bare_library\<lparr>SSL := (SSL bare_library)(''OP_LEGACY_SERVER_CONNECT'' \<mapsto> 4)\<rparr>) None None stub_state"
proof -
  have a: "SSL bare_library ''SSLv23_METHOD'' = Some 3"
    and b: "SSL bare_library ''TLS_METHOD'' = None"
    and c: "SSL bare_library ''OP_NO_SSLv3'' = None"
    and d: "SSL bare_library ''OP_LEGACY_SERVER_CONNECT'' = None"
    and e: "DEFAULT_CIPHERS bare_library = [''DEFAULT'']"
    by (simp_all add: bare_library_def)
  note probe = capability_probe_fallbacks [of bare_library 3 False True None None None stub_state]
  from probe a b e have 1:
    "fst (ScrapyClientContextFactory_init bare_library False None True None) =
       Inr \<lparr>ssl_method = 3, tls_verbose_logging = True, tls_ciphers = [''DEFAULT'']\<rparr>"
    by simp
  from probe c have 2:
    "getContext bare_library None None stub_state =
     getContext (bare_library\<lparr>SSL := (SSL bare_library)(''OP_NO_SSLv3'' \<mapsto> 0)\<rparr>) None None stub_state"
    by blast
  from probe d have 3:
    "getContext bare_library None None stub_state =
     getContext (bare_library\<lparr>SSL := (SSL bare_library)(''OP_LEGACY_SERVER_CONNECT'' \<mapsto> 4)\<rparr>) None None stub_state"
    by blast
  from 1 2 3 show ?thesis by (intro conjI)
qed

text \<open>
  C1 as stated fails for the legacy-server-connect bit. The bare library lacks
  \<open>OP_LEGACY_SERVER_CONNECT\<close>; were the missing symbol replaced by 0, \<open>getContext\<close>
  would behave as with a library defining it as 0. It does not: the context receives the
  option value 4.
\<close>

theorem capability_probe_legacy_counterexample:
  "SSL bare_library ''OP_LEGACY_SERVER_CONNECT'' = None
   \<and> getContext bare_library None None stub_state \<noteq>
     getContext (bare_library\<lparr>SSL := (SSL bare_library)(''OP_LEGACY_SERVER_CONNECT'' \<mapsto> 0)\<rparr>)
       None None stub_state
   \<and> map ctx_set_options (contexts (snd (getContext bare_library None None stub_state))) = [[4]]"
  by (simp add: getContext_eq getattr_default_def bare_library_def stub_state_def)

section \<open>Certificate options\<close>



section \<open>The legacy context accessor\<close>

text \<open>
  C5. For every instance and whatever hostname and port are passed, \<open>getContext\<close> creates
  one new context from the instance's certificate options and makes one \<open>set_options\<close>
  call on it, whose argument is the legacy-server-connect bit (the library's value, 4
  when the library does not name it) OR-ed with all the available bits among
  disable-SSLv2, disable-SSLv3, disable-TLSv1 and disable-TLSv1.1. Nothing else in the
  state changes.
\<close>

theorem getContext_applies_flags:
  "getContext lib hostname port s =
     (length (contexts s),
      s\<lparr>contexts := contexts s @
         [\<lparr>ctx_certopts = getCertificateOptions (self s),
           ctx_set_options =
             [getattr_default (SSL lib) ''OP_LEGACY_SERVER_CONNECT'' 4 OR
              or_all (available_disable_bits lib)],
           ctx_protocols = None\<rparr>]\<rparr>)"
  by (simp only: getContext_eq or_all_available)

text \<open>With the stub library, which has the four disable bits and no legacy symbol, the
  context receives \<open>0x17000004\<close>.\<close>

theorem getContext_applies_flags_witness:
  "or_all (available_disable_bits stub_library) = 0x17000000
   \<and> getContext stub_library (Some ''example.com'') (Some 443) stub_state =
     (0, stub_state\<lparr>contexts :=
           [\<lparr>ctx_certopts = getCertificateOptions stub_factory,
             ctx_set_options = [0x17000004], ctx_protocols = None\<rparr>]\<rparr>)"
proof -
  have bits: "or_all (available_disable_bits stub_library) = 0x17000000"
    by (simp add: or_all_def available_disable_bits_def stub_library_def List.map_filter_simps)
  have legacy: "getattr_default (SSL stub_library) ''OP_LEGACY_SERVER_CONNECT'' 4 = 4"
    by (simp add: getattr_default_def stub_library_def)
  from getContext_applies_flags [of stub_library "Some ''example.com''" "Some 443" stub_state]
    bits legacy
  show ?thesis by (simp add: stub_state_def)
qed

section \<open>The per-connection hook\<close>

lemma decode_ascii_from_ok:
  "(\<forall>b\<in>set bs. (of_char b :: nat) < 128) \<Longrightarrow> decode_ascii_from i bs = Inr bs"
  by (induction bs arbitrary: i) auto

lemma decode_ascii_from_bad:
  "\<not> (\<forall>b\<in>set bs. (of_char b :: nat) < 128) \<Longrightarrow>
   \<exists>k<length bs. decode_ascii_from i bs = Inl (UnicodeDecodeError (i + k)) \<and>
     \<not> (of_char (bs ! k) :: nat) < 128 \<and> (\<forall>j<k. (of_char (bs ! j) :: nat) < 128)"
proof (induction bs arbitrary: i)
  case Nil
  then show ?case by simp
next
  case (Cons b bs)
  show ?case
  proof (cases "(of_char b :: nat) < 128")
    case False
    then have "decode_ascii_from i (b # bs) = Inl (UnicodeDecodeError (i + 0))" by simp
    with False show ?thesis by (intro exI [of _ 0]) simp
  next
    case True
    with Cons.prems have "\<not> (\<forall>b\<in>set bs. (of_char b :: nat) < 128)" by simp
    from Cons.IH [OF this, of "Suc i"] obtain k where k: "k < length bs"
      "decode_ascii_from (Suc i) bs = Inl (UnicodeDecodeError (Suc i + k))"
      "\<not> (of_char (bs ! k) :: nat) < 128" "\<forall>j<k. (of_char (bs ! j) :: nat) < 128"
      by blast
    have "\<forall>j<Suc k. (of_char ((b # bs) ! j) :: nat) < 128"
      using True k(4) by (auto simp: nth_Cons split: nat.splits)
    with True k show ?thesis by (intro exI [of _ "Suc k"]) simp
  qed
qed

lemma creatorForNetloc_eq:
  "creatorForNetloc lib hostname port s =
     (case decode_ascii hostname of
        Inl e \<Rightarrow> (Inl e, s)
      | Inr name \<Rightarrow>
          (Inr (length (options s)),
           (snd (getContext lib None None s))
             \<lparr>options := options s @
                [\<lparr>opt_hostname = name, opt_ctx = length (contexts s),
                  opt_verbose_logging = tls_verbose_logging (self s)\<rparr>]\<rparr>))"
  by (simp add: creatorForNetloc_def getContext_eq ScrapyClientTLSOptions_new_def
        split: sum.splits)

text \<open>
  C6. For every instance, port and hostname: when every byte of the hostname is ASCII,
  \<open>creatorForNetloc\<close> returns a new per-connection config that carries the decoded
  hostname, the context that \<open>getContext\<close> builds, and the instance's verbose-logging
  flag; when some byte is not ASCII, the call fails with a decoding error at the first
  such byte, and has built nothing.
\<close>

theorem creatorForNetloc_contract:
  "((\<forall>b\<in>set hostname. (of_char b :: nat) < 128) \<longrightarrow>
      creatorForNetloc lib hostname port s =
        (Inr (length (options s)),
         (snd (getContext lib None None s))
           \<lparr>options := options s @
              [\<lparr>opt_hostname = hostname, opt_ctx = fst (getContext lib None None s),
                opt_verbose_logging = tls_verbose_logging (self s)\<rparr>]\<rparr>))
   \<and> (\<not> (\<forall>b\<in>set hostname. (of_char b :: nat) < 128) \<longrightarrow>
        (\<exists>k<length hostname.
           creatorForNetloc lib hostname port s = (Inl (UnicodeDecodeError k), s) \<and>
           \<not> (of_char (hostname ! k) :: nat) < 128 \<and>
           (\<forall>j<k. (of_char (hostname ! j) :: nat) < 128)))"
proof (intro conjI impI)
  assume "\<forall>b\<in>set hostname. (of_char b :: nat) < 128"
  then have "decode_ascii hostname = Inr hostname"
    by (simp add: decode_ascii_def decode_ascii_from_ok)
  then show "creatorForNetloc lib hostname port s =
        (Inr (length (options s)),
         (snd (getContext lib None None s))
           \<lparr>options := options s @
              [\<lparr>opt_hostname = hostname, opt_ctx = fst (getContext lib None None s),
                opt_verbose_logging = tls_verbose_logging (self s)\<rparr>]\<rparr>)"
    by (simp add: creatorForNetloc_eq) (simp add: getContext_eq)
next
  assume "\<not> (\<forall>b\<in>set hostname. (of_char b :: nat) < 128)"
  from decode_ascii_from_bad [OF this, of 0]
  show "\<exists>k<length hostname.
           creatorForNetloc lib hostname port s = (Inl (UnicodeDecodeError k), s) \<and>
           \<not> (of_char (hostname ! k) :: nat) < 128 \<and>
           (\<forall>j<k. (of_char (hostname ! j) :: nat) < 128)"
    by (auto simp: creatorForNetloc_eq decode_ascii_def)
qed

text \<open>The hostname \<open>example.com\<close>, and one whose fourth byte is \<open>0xE9\<close>.\<close>

theorem creatorForNetloc_contract_witness:
  "creatorForNetloc stub_library ''example.com'' 443 stub_state =
     (Inr 0,
      stub_state
        \<lparr>contexts := [\<lparr>ctx_certopts = getCertificateOptions stub_factory,
                        ctx_set_options = [0x17000004], ctx_protocols = None\<rparr>],
         options := [\<lparr>opt_hostname = ''example.com'', opt_ctx = 0,
                       opt_verbose_logging = True\<rparr>]\<rparr>)
   \<and> creatorForNetloc stub_library [CHR ''c'', CHR ''a'', CHR ''f'', CHR 0xE9] 443 stub_state =
       (Inl (UnicodeDecodeError 3), stub_state)"
proof -
  have ok: "\<forall>b\<in>set ''example.com''. (of_char b :: nat) < 128" by simp
  have ctx: "getContext stub_library None None stub_state =
     (0, stub_state\<lparr>contexts :=
           [\<lparr>ctx_certopts = getCertificateOptions stub_factory,
             ctx_set_options = [0x17000004], ctx_protocols = None\<rparr>]\<rparr>)"
    by (simp add: getContext_eq getattr_default_def stub_library_def stub_state_def)
  have bad: "\<not> (\<forall>b\<in>set [CHR ''c'', CHR ''a'', CHR ''f'', CHR 0xE9]. (of_char b :: nat) < 128)"
    by simp
  have 1: "creatorForNetloc stub_library ''example.com'' 443 stub_state =
     (Inr 0,
      stub_state
        \<lparr>contexts := [\<lparr>ctx_certopts = getCertificateOptions stub_factory,
                        ctx_set_options = [0x17000004], ctx_protocols = None\<rparr>],
         options := [\<lparr>opt_hostname = ''example.com'', opt_ctx = 0,
                       opt_verbose_logging = True\<rparr>]\<rparr>)"
    using creatorForNetloc_contract [of "''example.com''" stub_library 443 stub_state] ok
    by (simp add: ctx) (simp add: stub_state_def stub_factory_def)
  from creatorForNetloc_contract
         [of "[CHR ''c'', CHR ''a'', CHR ''f'', CHR 0xE9]" stub_library 443 stub_state] bad
  obtain k where k: "k < 4"
    "creatorForNetloc stub_library [CHR ''c'', CHR ''a'', CHR ''f'', CHR 0xE9] 443 stub_state =
       (Inl (UnicodeDecodeError k), stub_state)"
    "\<not> (of_char ([CHR ''c'', CHR ''a'', CHR ''f'', CHR 0xE9] ! k) :: nat) < 128"
    by auto
  from k(1) have "k = 0 \<or> k = 1 \<or> k = 2 \<or> k = 3" by arith
  with k(3) have "k = 3" by auto
  with k(2) 1 show ?thesis by simp
qed

section \<open>The factory is only read, the configs are new\<close>

text \<open>
  C9. For every instance: \<open>getContext\<close> and \<open>creatorForNetloc\<close> leave the instance's
  fields (method, verbose-logging flag, cipher policy) as they were, whether the call
  returns or fails. Two calls of \<open>creatorForNetloc\<close> with the same hostname and port
  return two different references, each to a config that did not exist before its call;
  the two configs hold two different contexts, each created by its own call; the second
  call leaves the first config and its context as they were, and changing the protocol
  list of the first context does not change the second.
\<close>

theorem factory_read_only_fresh_configs:
  assumes first: "creatorForNetloc lib hostname port s = (Inr r1, s1)"
      and second: "creatorForNetloc lib hostname port s1 = (Inr r2, s2)"
  shows "self (snd (getContext lib h p s)) = self s
       \<and> self (snd (creatorForNetloc lib hostname' port' s)) = self s
       \<and> self s1 = self s \<and> self s2 = self s
       \<and> r1 \<noteq> r2
       \<and> heap_get (options s) r1 = None \<and> heap_get (options s1) r2 = None
       \<and> (\<exists>o1 o2. heap_get (options s2) r1 = Some o1 \<and> heap_get (options s2) r2 = Some o2
             \<and> heap_get (options s1) r1 = Some o1
             \<and> opt_ctx o1 \<noteq> opt_ctx o2
             \<and> heap_get (contexts s) (opt_ctx o1) = None
             \<and> heap_get (contexts s1) (opt_ctx o2) = None
             \<and> heap_get (contexts s1) (opt_ctx o1) \<noteq> None
             \<and> heap_get (contexts s2) (opt_ctx o2) \<noteq> None
             \<and> heap_get (contexts s2) (opt_ctx o1) = heap_get (contexts s1) (opt_ctx o1)
             \<and> heap_get (contexts (setAcceptableProtocols (opt_ctx o1) ps s2)) (opt_ctx o2)
                 = heap_get (contexts s2) (opt_ctx o2))"
proof -
  from first obtain name where name: "decode_ascii hostname = Inr name"
    by (auto simp: creatorForNetloc_eq split: sum.splits)
  let ?c = "\<lambda>s. \<lparr>ctx_certopts = getCertificateOptions (self s),
                  ctx_set_options =
                    [getattr_default (SSL lib) ''OP_LEGACY_SERVER_CONNECT'' 4 OR
                     (((getattr_default (SSL lib) ''OP_NO_TLSv1'' 0 OR
                        getattr_default (SSL lib) ''OP_NO_TLSv1_1'' 0) OR
                       getattr_default (SSL lib) ''OP_NO_SSLv2'' 0) OR
                      getattr_default (SSL lib) ''OP_NO_SSLv3'' 0)],
                  ctx_protocols = None\<rparr>"
  let ?o = "\<lambda>s. \<lparr>opt_hostname = name, opt_ctx = length (contexts s),
                  opt_verbose_logging = tls_verbose_logging (self s)\<rparr>"
  have step: "creatorForNetloc lib hostname port t =
      (Inr (length (options t)),
       t\<lparr>contexts := contexts t @ [?c t], options := options t @ [?o t]\<rparr>)" for t
    by (simp add: creatorForNetloc_eq name getContext_eq)
  from first step [of s] have r1: "r1 = length (options s)"
    and s1: "s1 = s\<lparr>contexts := contexts s @ [?c s], options := options s @ [?o s]\<rparr>"
    by simp_all
  from second step [of s1] have r2: "r2 = length (options s1)"
    and s2: "s2 = s1\<lparr>contexts := contexts s1 @ [?c s1], options := options s1 @ [?o s1]\<rparr>"
    by simp_all
  have "self (snd (getContext lib h p s)) = self s"
    by (simp add: getContext_eq)
  moreover have "self (snd (creatorForNetloc lib hostname' port' s)) = self s"
    by (simp add: creatorForNetloc_eq getContext_eq split: sum.splits)
  moreover have "self s1 = self s" "self s2 = self s" "r1 \<noteq> r2"
    "heap_get (options s) r1 = None" "heap_get (options s1) r2 = None"
    by (simp_all add: r1 r2 s1 s2 heap_get_def)
  moreover have "heap_get (options s2) r1 = Some (?o s) \<and> heap_get (options s2) r2 = Some (?o s1)
             \<and> heap_get (options s1) r1 = Some (?o s)
             \<and> opt_ctx (?o s) \<noteq> opt_ctx (?o s1)
             \<and> heap_get (contexts s) (opt_ctx (?o s)) = None
             \<and> heap_get (contexts s1) (opt_ctx (?o s1)) = None
             \<and> heap_get (contexts s1) (opt_ctx (?o s)) \<noteq> None
             \<and> heap_get (contexts s2) (opt_ctx (?o s1)) \<noteq> None
             \<and> heap_get (contexts s2) (opt_ctx (?o s)) = heap_get (contexts s1) (opt_ctx (?o s))
             \<and> heap_get (contexts (setAcceptableProtocols (opt_ctx (?o s)) ps s2)) (opt_ctx (?o s1))
                 = heap_get (contexts s2) (opt_ctx (?o s1))"
    by (simp add: r1 r2 s1 s2 heap_get_def nth_append setAcceptableProtocols_def)
  ultimately show ?thesis by blast
qed

text \<open>Two calls for \<open>example.com:443\<close> from the empty state give the configs 0 and
  1 and leave the instance alone.\<close>

theorem factory_read_only_fresh_configs_witness:
  "fst (creatorForNetloc stub_library ''example.com'' 443 stub_state) = Inr 0
   \<and> fst (creatorForNetloc stub_library ''example.com'' 443
            (snd (creatorForNetloc stub_library ''example.com'' 443 stub_state))) = Inr 1
   \<and> self (snd (creatorForNetloc stub_library ''example.com'' 443
            (snd (creatorForNetloc stub_library ''example.com'' 443 stub_state)))) = stub_factory
   \<and> (0::nat) \<noteq> 1"
proof -
  let ?s1 = "snd (creatorForNetloc stub_library ''example.com'' 443 stub_state)"
  let ?s2 = "snd (creatorForNetloc stub_library ''example.com'' 443 ?s1)"
  have dec: "decode_ascii ''example.com'' = Inr ''example.com''"
    by (simp add: decode_ascii_def)
  have f1: "fst (creatorForNetloc stub_library ''example.com'' 443 stub_state) = Inr 0"
    by (simp add: creatorForNetloc_eq dec stub_state_def)
  have f2: "fst (creatorForNetloc stub_library ''example.com'' 443 ?s1) = Inr 1"
    by (simp add: creatorForNetloc_eq dec getContext_eq stub_state_def)
  have 1: "creatorForNetloc stub_library ''example.com'' 443 stub_state = (Inr 0, ?s1)"
    using f1 by (simp add: prod_eq_iff)
  have 2: "creatorForNetloc stub_library ''example.com'' 443 ?s1 = (Inr 1, ?s2)"
    using f2 by (simp add: prod_eq_iff)
  note fresh = factory_read_only_fresh_configs [OF 1 2]
  from fresh have f3: "self ?s2 = self stub_state" and f4: "(0::nat) \<noteq> 1"
    by blast+
  have f5: "self stub_state = stub_factory"
    by (simp add: stub_state_def)
  from f1 f2 f3 [unfolded f5] f4 show ?thesis by (intro conjI)
qed

section \<open>The protocol-negotiation wrapper\<close>







section \<open>Construction from a crawler\<close>

lemma init_ignores_TLS_METHOD:
  "ScrapyClientContextFactory_init (lib\<lparr>SSL := (SSL lib)(''TLS_METHOD'' := t)\<rparr>)
     overridden (Some m) verbose ciphers =
   ScrapyClientContextFactory_init lib overridden (Some m) verbose ciphers"
  by (simp add: ScrapyClientContextFactory_init_def split: option.splits)

text \<open>
  C10. \<open>from_crawler\<close> always hands a method to the constructor: the one it was given, or
  the SSLv23 constant when none was. The instance's method is that value, and neither
  \<open>from_crawler\<close> nor a constructor call with a method depends on whether the library has
  \<open>TLS_METHOD\<close>: the preference for it is only consulted by a constructor call without a
  method. The resolver's \<open>build_from_crawler\<close> constructs this class through
  \<open>from_crawler\<close>.
\<close>

theorem from_crawler_passes_method:
  "from_crawler lib overridden crawler (Some m) =
     ScrapyClientContextFactory_init lib overridden (Some m)
       (DOWNLOADER_CLIENT_TLS_VERBOSE_LOGGING crawler) (DOWNLOADER_CLIENT_TLS_CIPHERS crawler)
   \<and> (SSL lib ''SSLv23_METHOD'' = Some v \<longrightarrow>
        from_crawler lib overridden crawler None =
          ScrapyClientContextFactory_init lib overridden (Some v)
            (DOWNLOADER_CLIENT_TLS_VERBOSE_LOGGING crawler) (DOWNLOADER_CLIENT_TLS_CIPHERS crawler))
   \<and> (\<forall>f. fst (from_crawler lib overridden crawler method) = Inr f \<longrightarrow>
          (case method of
             None \<Rightarrow> SSL lib ''SSLv23_METHOD'' = Some (ssl_method f)
           | Some m' \<Rightarrow> ssl_method f = m'))
   \<and> from_crawler (lib\<lparr>SSL := (SSL lib)(''TLS_METHOD'' := t)\<rparr>) overridden crawler method =
       from_crawler lib overridden crawler method
   \<and> ScrapyClientContextFactory_init (lib\<lparr>SSL := (SSL lib)(''TLS_METHOD'' := t)\<rparr>)
         overridden (Some m) verbose ciphers =
       ScrapyClientContextFactory_init lib overridden (Some m) verbose ciphers
   \<and> build_from_crawler (ScrapyClientContextFactory_class lib) crawler method =
       from_crawler lib False crawler method"
proof (intro conjI impI allI)
  show "from_crawler lib overridden crawler (Some m) =
     ScrapyClientContextFactory_init lib overridden (Some m)
       (DOWNLOADER_CLIENT_TLS_VERBOSE_LOGGING crawler) (DOWNLOADER_CLIENT_TLS_CIPHERS crawler)"
    by (simp add: from_crawler_def)
next
  assume "SSL lib ''SSLv23_METHOD'' = Some v"
  then show "from_crawler lib overridden crawler None =
          ScrapyClientContextFactory_init lib overridden (Some v)
            (DOWNLOADER_CLIENT_TLS_VERBOSE_LOGGING crawler) (DOWNLOADER_CLIENT_TLS_CIPHERS crawler)"
    by (simp add: from_crawler_def getattr_def)
next
  fix f
  assume "fst (from_crawler lib overridden crawler method) = Inr f"
  then show "case method of
             None \<Rightarrow> SSL lib ''SSLv23_METHOD'' = Some (ssl_method f)
           | Some m' \<Rightarrow> ssl_method f = m'"
    by (auto simp: from_crawler_def getattr_def init_method split: option.splits)
next
  show "from_crawler (lib\<lparr>SSL := (SSL lib)(''TLS_METHOD'' := t)\<rparr>) overridden crawler method =
       from_crawler lib overridden crawler method"
    by (simp add: from_crawler_def getattr_def init_ignores_TLS_METHOD
          split: option.splits)
next
  show "ScrapyClientContextFactory_init (lib\<lparr>SSL := (SSL lib)(''TLS_METHOD'' := t)\<rparr>)
         overridden (Some m) verbose ciphers =
       ScrapyClientContextFactory_init lib overridden (Some m) verbose ciphers"
    by (rule init_ignores_TLS_METHOD)
next
  show "build_from_crawler (ScrapyClientContextFactory_class lib) crawler method =
       from_crawler lib False crawler method"
    by (simp add: build_from_crawler_def ScrapyClientContextFactory_class_def)
qed

text \<open>The stub library has \<open>TLS_METHOD = 7\<close>: \<open>from_crawler\<close> without a method gives
  an instance with the SSLv23 method 3, the bare constructor one with 7.\<close>

theorem from_crawler_passes_method_witness:
  "SSL stub_library ''TLS_METHOD'' = Some 7
   \<and> fst (from_crawler stub_library False stub_settings None) =
       Inr \<lparr>ssl_method = 3, tls_verbose_logging = True, tls_ciphers = [''DEFAULT'']\<rparr>
   \<and> fst (ScrapyClientContextFactory_init stub_library False None True (Some [])) =
       Inr \<lparr>ssl_method = 7, tls_verbose_logging = True, tls_ciphers = [''DEFAULT'']\<rparr>"
proof -
  have a: "SSL stub_library ''SSLv23_METHOD'' = Some 3"
    and b: "SSL stub_library ''TLS_METHOD'' = Some 7"
    by (simp_all add: stub_library_def)
  have c: "ScrapyClientContextFactory_init stub_library False (Some 3) True (Some []) =
       (Inr \<lparr>ssl_method = 3, tls_verbose_logging = True, tls_ciphers = [''DEFAULT'']\<rparr>, [])"
    by (simp add: ScrapyClientContextFactory_init_def stub_library_def)
  have d: "fst (ScrapyClientContextFactory_init stub_library False None True (Some [])) =
       Inr \<lparr>ssl_method = 7, tls_verbose_logging = True, tls_ciphers = [''DEFAULT'']\<rparr>"
    by (simp add: init_probe [OF a] b) (simp add: ScrapyClientContextFactory_init_def stub_library_def)
  from from_crawler_passes_method [of stub_library False stub_settings _ 3] a
  have "from_crawler stub_library False stub_settings None =
          ScrapyClientContextFactory_init stub_library False (Some 3)
            (DOWNLOADER_CLIENT_TLS_VERBOSE_LOGGING stub_settings)
            (DOWNLOADER_CLIENT_TLS_CIPHERS stub_settings)"
    by blast
  then have "fst (from_crawler stub_library False stub_settings None) =
       Inr \<lparr>ssl_method = 3, tls_verbose_logging = True, tls_ciphers = [''DEFAULT'']\<rparr>"
    by (simp add: stub_settings_def c)
  with b d show ?thesis by (intro conjI)
qed

section \<open>The resolver\<close>

lemma fallback_msg_names:
  "(\<exists>a b. fallback_msg settings = a @ ''`method`'' @ b)
   \<and> (\<exists>a b. fallback_msg settings = a @ ''`tls_verbose_logging`'' @ b)
   \<and> (\<exists>a b. fallback_msg settings = a @ ''`tls_ciphers`'' @ b)"
proof (intro conjI)
  show "\<exists>a b. fallback_msg settings = a @ ''`method`'' @ b"
    by (rule exI [of _ "py_str (DOWNLOADER_CLIENTCONTEXTFACTORY settings) @ '' does not accept a ''"],
        rule exI [of _ "'' argument (type OpenSSL.SSL method, e.g. OpenSSL.SSL.SSLv23_METHOD) and/or a `tls_verbose_logging` argument and/or a `tls_ciphers` argument. Please, upgrade your context factory class to handle them or ignore them.''"])
       (simp add: fallback_msg_def)
  show "\<exists>a b. fallback_msg settings = a @ ''`tls_verbose_logging`'' @ b"
    by (rule exI [of _ "py_str (DOWNLOADER_CLIENTCONTEXTFACTORY settings) @ '' does not accept a `method` argument (type OpenSSL.SSL method, e.g. OpenSSL.SSL.SSLv23_METHOD) and/or a ''"],
        rule exI [of _ "'' argument and/or a `tls_ciphers` argument. Please, upgrade your context factory class to handle them or ignore them.''"])
       (simp add: fallback_msg_def)
  show "\<exists>a b. fallback_msg settings = a @ ''`tls_ciphers`'' @ b"
    by (rule exI [of _ "py_str (DOWNLOADER_CLIENTCONTEXTFACTORY settings) @ '' does not accept a `method` argument (type OpenSSL.SSL method, e.g. OpenSSL.SSL.SSLv23_METHOD) and/or a `tls_verbose_logging` argument and/or a ''"],
        rule exI [of _ "'' argument. Please, upgrade your context factory class to handle them or ignore them.''"])
       (simp add: fallback_msg_def)
qed

lemma load_and_build_success:
  assumes "load_object env (DOWNLOADER_CLIENTCONTEXTFACTORY settings) = Inr cls"
      and "build_from_crawler cls crawler (Some m) = (Inr f, ws)"
  shows "load_and_build env settings crawler m = (Inr f, Build (Some m) # map Warn ws)"
  using assms by (simp add: load_and_build_def)

lemma load_and_build_TypeError:
  assumes "load_object env (DOWNLOADER_CLIENTCONTEXTFACTORY settings) = Inr cls"
      and "build_from_crawler cls crawler (Some m) = (Inl (TypeError msg), ws)"
  shows "load_and_build env settings crawler m =
           (case build_from_crawler cls crawler None of
              (Inl e, ws') \<Rightarrow>
                (Inl e, Build (Some m) # map Warn ws @ Build None # map Warn ws')
            | (Inr f, ws') \<Rightarrow>
                (Inr f, Build (Some m) # map Warn ws @ Build None # map Warn ws' @
                        [Warn (fallback_msg settings)]))"
  using assms by (simp add: load_and_build_def)

lemma load_and_build_other:
  assumes "load_object env (DOWNLOADER_CLIENTCONTEXTFACTORY settings) = Inr cls"
      and "build_from_crawler cls crawler (Some m) = (Inl e, ws)"
      and "\<forall>msg. e \<noteq> TypeError msg"
  shows "load_and_build env settings crawler m = (Inl e, Build (Some m) # map Warn ws)"
  using assms by (cases e) (simp_all add: load_and_build_def)

text \<open>
  C2, as the code has it. Once the method name is found and the class is loaded, the
  resolver retries construction with no extra arguments exactly when the first attempt
  raises a TypeError, which it always does when the constructor does not take \<open>method\<close>.
  The outcome of the retry is the resolver's outcome, and a successful retry is followed
  by the compatibility warning, which names \<open>method\<close>, \<open>tls_verbose_logging\<close> and
  \<open>tls_ciphers\<close>. A first failure that is not a TypeError propagates unchanged and
  without a retry; a first success is returned as it is.
\<close>

theorem resolver_fallback_on_TypeError:
  assumes lookup: "dict_getitem (openssl_methods env) (DOWNLOADER_CLIENT_TLS_METHOD settings) = Inr m"
      and loaded: "load_object env (DOWNLOADER_CLIENTCONTEXTFACTORY settings) = Inr cls"
  shows "(Build None \<in> set (snd (load_context_factory_from_settings env settings crawler))
            \<longleftrightarrow> (\<exists>msg. fst (build_from_crawler cls crawler (Some m)) = Inl (TypeError msg)))
       \<and> (\<not> accepts_method cls \<longrightarrow>
            Build None \<in> set (snd (load_context_factory_from_settings env settings crawler)))
       \<and> (\<forall>msg. fst (build_from_crawler cls crawler (Some m)) = Inl (TypeError msg) \<longrightarrow>
            fst (load_context_factory_from_settings env settings crawler) =
              fst (build_from_crawler cls crawler None) \<and>
            (\<forall>f. fst (build_from_crawler cls crawler None) = Inr f \<longrightarrow>
               last (snd (load_context_factory_from_settings env settings crawler)) =
                 Warn (fallback_msg settings)))
       \<and> (\<forall>e. fst (build_from_crawler cls crawler (Some m)) = Inl e \<and> (\<forall>msg. e \<noteq> TypeError msg) \<longrightarrow>
            load_context_factory_from_settings env settings crawler =
              (Inl e, Build (Some m) # map Warn (snd (build_from_crawler cls crawler (Some m)))))
       \<and> (\<forall>f. fst (build_from_crawler cls crawler (Some m)) = Inr f \<longrightarrow>
            load_context_factory_from_settings env settings crawler =
              (Inr f, Build (Some m) # map Warn (snd (build_from_crawler cls crawler (Some m)))))
       \<and> (\<exists>a b. fallback_msg settings = a @ ''`method`'' @ b)
       \<and> (\<exists>a b. fallback_msg settings = a @ ''`tls_verbose_logging`'' @ b)
       \<and> (\<exists>a b. fallback_msg settings = a @ ''`tls_ciphers`'' @ b)"
proof -
  let ?R = "load_context_factory_from_settings env settings crawler"
  obtain r ws where first: "build_from_crawler cls crawler (Some m) = (r, ws)"
    by (cases "build_from_crawler cls crawler (Some m)")
  obtain r' ws' where retry: "build_from_crawler cls crawler None = (r', ws')"
    by (cases "build_from_crawler cls crawler None")
  have R: "?R = load_and_build env settings crawler m"
    using lookup by (simp add: load_context_factory_from_settings_def)
  have mismatch: "\<not> accepts_method cls \<Longrightarrow> \<exists>msg. r = Inl (TypeError msg)"
    using first by (auto simp: build_from_crawler_def)
  have retried: "Build None \<in> set (snd ?R) \<and> fst ?R = r' \<and>
      (\<forall>f. r' = Inr f \<longrightarrow> last (snd ?R) = Warn (fallback_msg settings))"
    if "r = Inl (TypeError msg)" for msg
    using that first retry
    by (cases r') (simp_all add: R load_and_build_TypeError [OF loaded])
  have other: "?R = (Inl e, Build (Some m) # map Warn ws)"
    if "r = Inl e" "\<forall>msg. e \<noteq> TypeError msg" for e
    using that first by (simp add: R load_and_build_other [OF loaded])
  have success: "?R = (Inr f, Build (Some m) # map Warn ws)" if "r = Inr f" for f
    using that first by (simp add: R load_and_build_success [OF loaded])
  have iff: "Build None \<in> set (snd ?R) \<longleftrightarrow> (\<exists>msg. r = Inl (TypeError msg))"
  proof (cases r)
    case (Inr f)
    with success [OF Inr] show ?thesis by auto
  next
    case (Inl e)
    show ?thesis
    proof (cases "\<exists>msg. e = TypeError msg")
      case True
      with Inl retried show ?thesis by blast
    next
      case False
      with other [OF Inl] Inl show ?thesis by auto
    qed
  qed
  show ?thesis
    using iff mismatch retried other success fallback_msg_names [of settings]
    by (simp add: first retry)
qed

text \<open>The legacy class takes no \<open>method\<close>: the resolver retries, succeeds and warns.\<close>

theorem resolver_fallback_on_TypeError_witness:
  "Build None \<in> set (snd (load_context_factory_from_settings (stub_env legacy_class)
                            stub_settings stub_settings))
   \<and> fst (load_context_factory_from_settings (stub_env legacy_class) stub_settings stub_settings)
       = Inr ()
   \<and> last (snd (load_context_factory_from_settings (stub_env legacy_class)
                  stub_settings stub_settings))
       = Warn (fallback_msg stub_settings)"
proof -
  have lookup: "dict_getitem (openssl_methods (stub_env legacy_class))
                  (DOWNLOADER_CLIENT_TLS_METHOD stub_settings) = Inr 7"
    by (simp add: dict_getitem_def stub_env_def stub_settings_def)
  have loaded: "load_object (stub_env legacy_class)
                  (DOWNLOADER_CLIENTCONTEXTFACTORY stub_settings) = Inr legacy_class"
    by (simp add: stub_env_def)
  have first: "fst (build_from_crawler legacy_class stub_settings (Some 7)) =
                 Inl (TypeError ''got an unexpected keyword argument method'')"
    and retry: "fst (build_from_crawler legacy_class stub_settings None) = Inr ()"
    by (simp_all add: build_from_crawler_def legacy_class_def)
  from resolver_fallback_on_TypeError [OF lookup loaded, of stub_settings] first retry
  show ?thesis by simp
qed

text \<open>
  C2 as stated fails on a TypeError that is not a signature mismatch. The faulty class
  takes \<open>method\<close> and raises a TypeError of its own in the constructor; the resolver still
  retries without arguments and returns an instance, so the first failure is masked.
\<close>

theorem resolver_masks_TypeError_counterexample:
  "accepts_method faulty_class
   \<and> fst (build_from_crawler faulty_class stub_settings (Some 7)) =
       Inl (TypeError ''unsupported operand type(s)'')
   \<and> load_context_factory_from_settings (stub_env faulty_class) stub_settings stub_settings =
       (Inr (), [Build (Some 7), Build None, Warn (fallback_msg stub_settings)])"
  by (simp add: load_context_factory_from_settings_def load_and_build_def dict_getitem_def
        build_from_crawler_def faulty_class_def stub_env_def stub_settings_def)

text \<open>
  C7. For every method table and every configured method name: when the table has the
  name, the lookup does not fail and the resolver goes on to load and build with the
  method the table gives; when the table lacks it, the resolver fails with the lookup's
  KeyError for that name (the specification's UnknownTLSMethod) and no construction has
  been attempted.
\<close>

theorem resolver_method_lookup:
  assumes "DOWNLOADER_CLIENT_TLS_METHOD settings = Some name"
  shows "(\<forall>m. openssl_methods env name = Some m \<longrightarrow>
            load_context_factory_from_settings env settings crawler =
              load_and_build env settings crawler m)
       \<and> (openssl_methods env name = None \<longrightarrow>
            load_context_factory_from_settings env settings crawler =
              (Inl (KeyError (Some name)), []))"
  using assms by (simp add: load_context_factory_from_settings_def dict_getitem_def)

text \<open>The name \<open>TLS\<close> is in the stub table, \<open>FOO\<close> is not.\<close>

theorem resolver_method_lookup_witness:
  "load_context_factory_from_settings (stub_env legacy_class) stub_settings stub_settings =
     load_and_build (stub_env legacy_class) stub_settings stub_settings 7
   \<and> load_context_factory_from_settings (stub_env legacy_class)
       (stub_settings\<lparr>DOWNLOADER_CLIENT_TLS_METHOD := Some ''FOO''\<rparr>) stub_settings =
     (Inl (KeyError (Some ''FOO'')), [])"
proof -
  have known: "DOWNLOADER_CLIENT_TLS_METHOD stub_settings = Some ''TLS''"
    and tls: "openssl_methods (stub_env legacy_class) ''TLS'' = Some 7"
    by (simp_all add: stub_settings_def stub_env_def)
  have unknown: "DOWNLOADER_CLIENT_TLS_METHOD
                   (stub_settings\<lparr>DOWNLOADER_CLIENT_TLS_METHOD := Some ''FOO''\<rparr>) = Some ''FOO''"
    and foo: "openssl_methods (stub_env legacy_class) ''FOO'' = None"
    by (simp_all add: stub_env_def)
  from resolver_method_lookup [OF known, of "stub_env legacy_class" stub_settings] tls
  have 1: "load_context_factory_from_settings (stub_env legacy_class) stub_settings stub_settings =
     load_and_build (stub_env legacy_class) stub_settings stub_settings 7"
    by blast
  from resolver_method_lookup [OF unknown, of "stub_env legacy_class" stub_settings] foo
  have 2: "load_context_factory_from_settings (stub_env legacy_class)
       (stub_settings\<lparr>DOWNLOADER_CLIENT_TLS_METHOD := Some ''FOO''\<rparr>) stub_settings =
     (Inl (KeyError (Some ''FOO'')), [])"
    by blast
  from 1 2 show ?thesis by (intro conjI)
qed

end
